theory Spec2Isabelle
  imports Complex_Main "HOL-Library.Monad_Syntax" "HOL-Library.Multiset"
begin

section \<open>JavaScript strings and the event record\<close>

text \<open>
  A JavaScript string is a sequence of UTF-16 code units. The model keeps a code unit as a
  natural number; a well-formed string has every unit below \<open>2^16\<close>. ASCII literals are
  written through \<open>str\<close>.
\<close>

type_synonym jsstring = "nat list"

definition str :: "string \<Rightarrow> jsstring" where
  "str s = map of_char s"

definition wf_jsstring :: "jsstring \<Rightarrow> bool" where
  "wf_jsstring s = list_all (\<lambda>c. c < 65536) s"

text \<open>
  A JavaScript number. Finite values are kept as the exact rational they denote (rounding
  to IEEE doubles is outside the model, and negative zero is identified with zero).
\<close>

datatype jsnum = NaN | PosInf | NegInf | Num rat

text \<open>\<open>ToBoolean\<close> on numbers and strings: \<open>NaN\<close>, zero and the empty string are falsy.\<close>

fun truthy_num :: "jsnum \<Rightarrow> bool" where
  "truthy_num NaN = False"
| "truthy_num (Num r) = (r \<noteq> 0)"
| "truthy_num PosInf = True"
| "truthy_num NegInf = True"

definition truthy_str :: "jsstring \<Rightarrow> bool" where
  "truthy_str s = (s \<noteq> [])"

text \<open>The event of the data model, with the fields \<open>saveEvent\<close> writes.\<close>

record event =
  id' :: jsstring
  title :: jsstring
  start :: jsstring
  duration :: jsnum
  description :: jsstring
  attendees :: "jsstring list"

section \<open>deleteEvent\<close>

text \<open>
  \<open>deleteEvent(id)\<close>: \<open>if (!confirm(...)) return; setEvents(prev => prev.filter(p => p.id !== id))\<close>.
  The answer of the confirmation dialog is the first argument; the event list is passed in
  and returned.
\<close>

definition deleteEvent :: "bool \<Rightarrow> jsstring \<Rightarrow> event list \<Rightarrow> event list" where
  "deleteEvent confirmed i prev =
     (if \<not> confirmed then prev else filter (\<lambda>p. id' p \<noteq> i) prev)"

section \<open>escapeICSText\<close>

text \<open>
  \<open>String.prototype.replace\<close> with a global single-character pattern and a replacement
  string without \<open>$\<close>: every occurrence of the unit is replaced, left to right.
\<close>

definition replaceAllUnit :: "nat \<Rightarrow> jsstring \<Rightarrow> jsstring \<Rightarrow> jsstring" where
  "replaceAllUnit c r s = concat (map (\<lambda>x. if x = c then r else [x]) s)"

text \<open>
  \<open>escapeICSText(s='') { return s.replace(/\n/g,'\\n').replace(/,/g,'\,'); }\<close>
  The literal \<open>'\\n'\<close> is the two units backslash, n. The literal \<open>'\,'\<close> is the single
  unit comma: in a JavaScript string literal a backslash before a character that starts no
  escape sequence is dropped.
\<close>

definition escapeICSText :: "jsstring \<Rightarrow> jsstring" where
  "escapeICSText s = replaceAllUnit 44 [44] (replaceAllUnit 10 [92, 110] s)"

section \<open>ECMAScript time values\<close>

text \<open>
  A Date holds a time value: an integral number of milliseconds since the epoch, at most
  \<open>8.64 * 10^15\<close> in absolute value, or \<open>NaN\<close> (an Invalid Date). The model keeps it as
  \<open>int option\<close>, \<open>None\<close> standing for \<open>NaN\<close>. The definitions below are the abstract
  operations of ECMA-262 (Day, TimeWithinDay, DaysInYear, DayFromYear, YearFromTime,
  MonthFromTime, DateFromTime, WeekDay, MakeTime, MakeDay, MakeDate, TimeClip), on
  integers.
\<close>

type_synonym date = "int option"

definition msPerDay :: int where
  "msPerDay = 86400000"

definition Day :: "int \<Rightarrow> int" where
  "Day t = t div msPerDay"

definition TimeWithinDay :: "int \<Rightarrow> int" where
  "TimeWithinDay t = t mod msPerDay"

definition DaysInYear :: "int \<Rightarrow> int" where
  "DaysInYear y =
     (if y mod 4 \<noteq> 0 then 365
      else if y mod 100 \<noteq> 0 then 366
      else if y mod 400 \<noteq> 0 then 365
      else 366)"

definition DayFromYear :: "int \<Rightarrow> int" where
  "DayFromYear y =
     365 * (y - 1970) + (y - 1969) div 4 - (y - 1901) div 100 + (y - 1601) div 400"

text \<open>
  \<open>YearFromTime(t)\<close> is the largest \<open>y\<close> with \<open>TimeFromYear(y) \<le> t\<close>. The model finds it
  by searching upwards from a year that is not too late; \<open>YearFromDay_spec\<close> and
  \<open>YearFromDay_unique\<close> below show that the search returns exactly that year.
\<close>

lemma div_step:
  assumes "(0::int) < n"
  shows "(a + 1) div n = a div n + (if n dvd (a + 1) then 1 else 0)"
proof -
  let ?r = "a mod n"
  have r: "0 \<le> ?r" "?r < n" using assms by simp_all
  have a: "a = n * (a div n) + ?r" by simp
  show ?thesis
  proof (cases "?r + 1 = n")
    case True
    have "a + 1 = n * (a div n) + n" using a True by linarith
    then have "a + 1 = n * (a div n + 1) + 0" by (simp add: algebra_simps)
    then have "(a + 1) div n = a div n + 1 \<and> n dvd (a + 1)"
      using assms int_div_pos_eq [of "a + 1" n "a div n + 1" 0] by simp
    then show ?thesis by simp
  next
    case False
    then have r1: "?r + 1 < n" using r by linarith
    have e: "a + 1 = n * (a div n) + (?r + 1)" using a by linarith
    have d: "(a + 1) div n = a div n"
      using int_div_pos_eq [OF e] r r1 by simp
    have "(a + 1) mod n = ?r + 1"
      using int_mod_pos_eq [OF e] r r1 by simp
    then have "\<not> n dvd (a + 1)" using r by (simp add: dvd_eq_mod_eq_0)
    then show ?thesis using d by simp
  qed
qed

lemma dvd_shift: "(n::int) dvd c \<Longrightarrow> n dvd (y - c) \<longleftrightarrow> n dvd y"
  by (simp add: dvd_diff_commute dvd_diff_right_iff)

lemma DayFromYear_Suc: "DayFromYear (y + 1) = DayFromYear y + DaysInYear y"
proof -
  have a: "(y + 1 - 1969) div 4 = (y - 1969) div 4 + (if 4 dvd y then 1 else 0)"
    using div_step [of 4 "y - 1969"] dvd_shift [of 4 1968 y] by (simp add: algebra_simps)
  have b: "(y + 1 - 1901) div 100 = (y - 1901) div 100 + (if 100 dvd y then 1 else 0)"
    using div_step [of 100 "y - 1901"] dvd_shift [of 100 1900 y] by (simp add: algebra_simps)
  have c: "(y + 1 - 1601) div 400 = (y - 1601) div 400 + (if 400 dvd y then 1 else 0)"
    using div_step [of 400 "y - 1601"] dvd_shift [of 400 1600 y] by (simp add: algebra_simps)
  have d1: "400 dvd y \<Longrightarrow> 100 dvd y" by (rule dvd_trans [of 100 400]) simp_all
  have d2: "100 dvd y \<Longrightarrow> 4 dvd y" by (rule dvd_trans [of 4 100]) simp_all
  show ?thesis
    unfolding DayFromYear_def DaysInYear_def a b c
    using d1 d2 by (auto simp: mod_eq_0_iff_dvd)
qed

lemma DaysInYear_bounds: "365 \<le> DaysInYear y \<and> DaysInYear y \<le> 366"
  by (simp add: DaysInYear_def)

lemma DayFromYear_less_Suc: "DayFromYear y < DayFromYear (y + 1)"
  using DaysInYear_bounds [of y] by (simp add: DayFromYear_Suc)

function year_search :: "int \<Rightarrow> int \<Rightarrow> int" where
  "year_search d y = (if DayFromYear (y + 1) \<le> d then year_search d (y + 1) else y)"
  by pat_completeness auto
termination
proof (relation "measure (\<lambda>(d, y). nat (d + 1 - DayFromYear (y + 1)))")
  show "wf (measure (\<lambda>(d, y). nat (d + 1 - DayFromYear (y + 1))))" by simp
next
  fix d y :: int
  assume "DayFromYear (y + 1) \<le> d"
  then show "((d, y + 1), (d, y)) \<in> measure (\<lambda>(d, y). nat (d + 1 - DayFromYear (y + 1)))"
    using DayFromYear_less_Suc [of "y + 1"] by simp
qed

declare year_search.simps [simp del]

definition YearFromDay :: "int \<Rightarrow> int" where
  "YearFromDay d = year_search d (1970 + (if 0 \<le> d then d div 366 else d div 365))"

definition YearFromTime :: "int \<Rightarrow> int" where
  "YearFromTime t = YearFromDay (Day t)"

definition DayWithinYear :: "int \<Rightarrow> int" where
  "DayWithinYear t = Day t - DayFromYear (YearFromTime t)"

definition InLeapYear :: "int \<Rightarrow> int" where
  "InLeapYear t = (if DaysInYear (YearFromTime t) = 365 then 0 else 1)"

definition MonthFromTime :: "int \<Rightarrow> int" where
  "MonthFromTime t =
     (let d = DayWithinYear t; l = InLeapYear t in
      if d < 31 then 0
      else if d < 59 + l then 1
      else if d < 90 + l then 2
      else if d < 120 + l then 3
      else if d < 151 + l then 4
      else if d < 181 + l then 5
      else if d < 212 + l then 6
      else if d < 243 + l then 7
      else if d < 273 + l then 8
      else if d < 304 + l then 9
      else if d < 334 + l then 10
      else 11)"

definition DateFromTime :: "int \<Rightarrow> int" where
  "DateFromTime t =
     (let d = DayWithinYear t; l = InLeapYear t; m = MonthFromTime t in
      if m = 0 then d + 1
      else if m = 1 then d - 30
      else if m = 2 then d - 58 - l
      else if m = 3 then d - 89 - l
      else if m = 4 then d - 119 - l
      else if m = 5 then d - 150 - l
      else if m = 6 then d - 180 - l
      else if m = 7 then d - 211 - l
      else if m = 8 then d - 242 - l
      else if m = 9 then d - 272 - l
      else if m = 10 then d - 303 - l
      else d - 333 - l)"


definition HourFromTime :: "int \<Rightarrow> int" where
  "HourFromTime t = (t div 3600000) mod 24"

definition MinFromTime :: "int \<Rightarrow> int" where
  "MinFromTime t = (t div 60000) mod 60"

definition SecFromTime :: "int \<Rightarrow> int" where
  "SecFromTime t = (t div 1000) mod 60"

definition msFromTime :: "int \<Rightarrow> int" where
  "msFromTime t = t mod 1000"

definition MakeTime :: "int \<Rightarrow> int \<Rightarrow> int \<Rightarrow> int \<Rightarrow> int" where
  "MakeTime h m s ms = h * 3600000 + m * 60000 + s * 1000 + ms"

text \<open>
  \<open>MakeDay(year, month, date)\<close>: with \<open>ym = year + floor(month / 12)\<close> and
  \<open>mn = month mod 12\<close>, the day number of the first day of month \<open>mn\<close> of year \<open>ym\<close>, plus
  \<open>date - 1\<close>. \<open>month_start l mn\<close> is the number of days of the year before month \<open>mn\<close>
  (\<open>l = 1\<close> in a leap year).
\<close>

definition month_start :: "int \<Rightarrow> int \<Rightarrow> int" where
  "month_start l mn =
     (if mn = 0 then 0
      else if mn = 1 then 31
      else if mn = 2 then 59 + l
      else if mn = 3 then 90 + l
      else if mn = 4 then 120 + l
      else if mn = 5 then 151 + l
      else if mn = 6 then 181 + l
      else if mn = 7 then 212 + l
      else if mn = 8 then 243 + l
      else if mn = 9 then 273 + l
      else if mn = 10 then 304 + l
      else 334 + l)"

definition MakeDay :: "int \<Rightarrow> int \<Rightarrow> int \<Rightarrow> int" where
  "MakeDay year month dt =
     (let ym = year + month div 12; mn = month mod 12 in
      DayFromYear ym + month_start (if DaysInYear ym = 365 then 0 else 1) mn + dt - 1)"

definition MakeDate :: "int \<Rightarrow> int \<Rightarrow> int" where
  "MakeDate day time = day * msPerDay + time"

definition TimeClip :: "int \<Rightarrow> date" where
  "TimeClip t = (if \<bar>t\<bar> \<le> 8640000000000000 then Some t else None)"

text \<open>
  The host's time zone is a fixed offset \<open>tz\<close> from UTC, in milliseconds
  (\<open>LocalTZA\<close>); daylight-saving transitions are outside the model.
\<close>

definition LocalTime :: "int \<Rightarrow> int \<Rightarrow> int" where
  "LocalTime tz t = t + tz"

definition UTC :: "int \<Rightarrow> int \<Rightarrow> int" where
  "UTC tz t = t - tz"

section \<open>The Date object\<close>

text \<open>A JavaScript number that is an integer or \<open>NaN\<close>, and arithmetic on it.\<close>

definition num_add :: "int option \<Rightarrow> int option \<Rightarrow> int option" where
  "num_add a b = (case a of None \<Rightarrow> None | Some x \<Rightarrow> (case b of None \<Rightarrow> None | Some y \<Rightarrow> Some (x + y)))"




text \<open>
  \<open>new Date(year, month, date)\<close>: a year from 0 to 99 stands for 1900 + year; the fields are
  local time; the result is clipped.
\<close>

definition Date_ymd :: "int \<Rightarrow> int option \<Rightarrow> int option \<Rightarrow> int option \<Rightarrow> date" where
  "Date_ymd tz year month dt =
     (case year of None \<Rightarrow> None | Some y \<Rightarrow>
     (case month of None \<Rightarrow> None | Some m \<Rightarrow>
     (case dt of None \<Rightarrow> None | Some d \<Rightarrow>
        (let yr = (if 0 \<le> y \<and> y \<le> 99 then 1900 + y else y) in
         TimeClip (UTC tz (MakeDate (MakeDay yr m d) (MakeTime 0 0 0 0)))))))"

definition getFullYear :: "int \<Rightarrow> date \<Rightarrow> int option" where
  "getFullYear tz d = map_option (\<lambda>t. YearFromTime (LocalTime tz t)) d"

definition getMonth :: "int \<Rightarrow> date \<Rightarrow> int option" where
  "getMonth tz d = map_option (\<lambda>t. MonthFromTime (LocalTime tz t)) d"




section \<open>Month navigation and the month grid\<close>


definition endOfMonth :: "int \<Rightarrow> date \<Rightarrow> date" where
  "endOfMonth tz d = Date_ymd tz (getFullYear tz d) (num_add (getMonth tz d) (Some 1)) (Some 0)"






section \<open>Calendar arithmetic\<close>


lemma DayFromYear_mono: "y \<le> z \<Longrightarrow> DayFromYear y \<le> DayFromYear z"
proof (induction z rule: int_ge_induct)
  case base
  show ?case by simp
next
  case (step i)
  then show ?case using DayFromYear_less_Suc [of i] by simp
qed

lemma DayFromYear_1970: "DayFromYear 1970 = 0"
  by (simp add: DayFromYear_def)

lemma DayFromYear_upper: "0 \<le> k \<Longrightarrow> DayFromYear (1970 + k) \<le> 366 * k"
proof (induction k rule: int_ge_induct)
  case base
  show ?case by (simp add: DayFromYear_1970)
next
  case (step i)
  have "DayFromYear (1970 + (i + 1)) = DayFromYear (1970 + i) + DaysInYear (1970 + i)"
    using DayFromYear_Suc [of "1970 + i"] by (simp add: algebra_simps)
  then show ?case using step DaysInYear_bounds [of "1970 + i"] by simp
qed

lemma DayFromYear_lower: "k \<le> 0 \<Longrightarrow> DayFromYear (1970 + k) \<le> 365 * k"
proof (induction k rule: int_le_induct)
  case base
  show ?case by (simp add: DayFromYear_1970)
next
  case (step i)
  have "DayFromYear (1970 + i) = DayFromYear (1970 + (i - 1)) + DaysInYear (1970 + (i - 1))"
    using DayFromYear_Suc [of "1970 + (i - 1)"] by (simp add: algebra_simps)
  then show ?case using step DaysInYear_bounds [of "1970 + (i - 1)"] by simp
qed

lemma year_search_spec:
  "DayFromYear y \<le> d \<Longrightarrow>
   DayFromYear (year_search d y) \<le> d \<and> d < DayFromYear (year_search d y + 1)"
proof (induction d y rule: year_search.induct)
  case (1 d y)
  show ?case
  proof (cases "DayFromYear (y + 1) \<le> d")
    case True
    with 1 show ?thesis by (subst (1 2) year_search.simps) simp
  next
    case False
    with 1 show ?thesis by (subst (1 2) year_search.simps) simp
  qed
qed

lemma YearFromDay_spec:
  "DayFromYear (YearFromDay d) \<le> d \<and> d < DayFromYear (YearFromDay d + 1)"
proof -
  let ?k = "if 0 \<le> d then d div 366 else d div 365"
  have "DayFromYear (1970 + ?k) \<le> d"
  proof (cases "0 \<le> d")
    case True
    then have "0 \<le> d div 366" by simp
    then have "DayFromYear (1970 + d div 366) \<le> 366 * (d div 366)" by (rule DayFromYear_upper)
    also have "\<dots> \<le> d" by simp
    finally show ?thesis using True by simp
  next
    case False
    then have "d div 365 \<le> 0" by simp
    then have "DayFromYear (1970 + d div 365) \<le> 365 * (d div 365)" by (rule DayFromYear_lower)
    also have "\<dots> \<le> d" by simp
    finally show ?thesis using False by simp
  qed
  then show ?thesis unfolding YearFromDay_def by (rule year_search_spec)
qed


lemma DayWithinYear_range: "0 \<le> DayWithinYear t \<and> DayWithinYear t < DaysInYear (YearFromTime t)"
  using YearFromDay_spec [of "Day t"] DayFromYear_Suc [of "YearFromTime t"]
  by (simp add: DayWithinYear_def YearFromTime_def)

lemma MonthFromTime_range: "0 \<le> MonthFromTime t \<and> MonthFromTime t \<le> 11"
  by (simp add: MonthFromTime_def Let_def)

lemma DateFromTime_month_start:
  "DateFromTime t = DayWithinYear t + 1 - month_start (InLeapYear t) (MonthFromTime t)"
  using MonthFromTime_range [of t]
  by (simp add: DateFromTime_def month_start_def Let_def)

lemma MakeDay_fields:
  "MakeDay (YearFromTime t) (MonthFromTime t) x = Day t - DateFromTime t + x"
proof -
  have m: "MonthFromTime t div 12 = 0" "MonthFromTime t mod 12 = MonthFromTime t"
    using MonthFromTime_range [of t] by simp_all
  show ?thesis
    by (simp add: MakeDay_def m DateFromTime_month_start InLeapYear_def DayWithinYear_def)
qed




lemma LocalTime_UTC [simp]: "LocalTime tz (UTC tz x) = x"
  by (simp add: LocalTime_def UTC_def)

lemma MakeTime_0 [simp]: "MakeTime 0 0 0 0 = 0"
  by (simp add: MakeTime_def)

text \<open>The time values a Date can hold.\<close>

definition in_range :: "int \<Rightarrow> bool" where
  "in_range x = (\<bar>x\<bar> \<le> 8640000000000000)"

lemma TimeClip_in_range: "in_range x \<Longrightarrow> TimeClip x = Some x"
  by (simp add: TimeClip_def in_range_def)




lemma InLeapYear_01: "InLeapYear t = 0 \<or> InLeapYear t = 1"
  by (simp add: InLeapYear_def)










section \<open>The month grid (C2)\<close>
















section \<open>Deleting an event (C9)\<close>

text \<open>
  C9. For every event list and every id, deleting after confirmation keeps exactly the
  events with another id, in their order, so it removes only events with that id; deleting
  an id that is not in the list leaves the list unchanged; deleting the same id twice
  equals deleting it once. Without confirmation nothing is removed.
\<close>

theorem deleteEvent_removes_only_id:
  "deleteEvent True i evs = filter (\<lambda>p. id' p \<noteq> i) evs
   \<and> (\<forall>p \<in> set evs. id' p \<noteq> i \<longrightarrow> p \<in> set (deleteEvent True i evs))
   \<and> (\<forall>p \<in> set (deleteEvent True i evs). p \<in> set evs \<and> id' p \<noteq> i)
   \<and> (i \<notin> id' ` set evs \<longrightarrow> deleteEvent True i evs = evs)
   \<and> deleteEvent True i (deleteEvent True i evs) = deleteEvent True i evs
   \<and> deleteEvent False i evs = evs"
proof -
  have "i \<notin> id' ` set evs \<Longrightarrow> filter (\<lambda>p. id' p \<noteq> i) evs = evs"
    by (induction evs) auto
  then show ?thesis by (auto simp: deleteEvent_def)
qed

definition sample_event :: "string \<Rightarrow> string \<Rightarrow> event" where
  "sample_event i t =
     \<lparr>id' = str i, title = str t, start = str ''2024-03-15T09:00:00.000Z'',
      duration = Num 60, description = [], attendees = []\<rparr>"

theorem deleteEvent_removes_only_id_witness:
  "deleteEvent True (str ''zz'') [sample_event ''a'' ''A'', sample_event ''b'' ''B'']
     = [sample_event ''a'' ''A'', sample_event ''b'' ''B'']
   \<and> deleteEvent True (str ''a'') [sample_event ''a'' ''A'', sample_event ''b'' ''B'']
     = [sample_event ''b'' ''B'']"
  using deleteEvent_removes_only_id
    [of "str ''zz''" "[sample_event ''a'' ''A'', sample_event ''b'' ''B'']"]
    deleteEvent_removes_only_id
    [of "str ''a''" "[sample_event ''a'' ''A'', sample_event ''b'' ''B'']"]
  by (simp add: sample_event_def str_def)

section \<open>Escaping text for the calendar document (C7)\<close>

lemma replaceAllUnit_same: "replaceAllUnit c [c] s = s"
  by (induction s) (simp_all add: replaceAllUnit_def)

lemma escapeICSText_newlines_only: "escapeICSText s = replaceAllUnit 10 [92, 110] s"
  by (simp add: escapeICSText_def replaceAllUnit_same)

text \<open>
  C7 fails on the code: the second \<open>replace\<close> puts a comma for every comma, so a comma in
  a title or description reaches the document unescaped. On the title \<open>a,b\<close> the result is
  \<open>a,b\<close>, with no backslash before the comma.
\<close>

theorem escapeICSText_comma_unescaped:
  "escapeICSText (str ''a,b'') = str ''a,b''"
  by (simp add: escapeICSText_def replaceAllUnit_def str_def)


section \<open>Date strings\<close>

datatype js_error = RangeError | TypeError | SyntaxError | URIError | InvalidCharacterError

text \<open>
  \<open>pad n v\<close>: the last \<open>n\<close> decimal digits of \<open>v\<close>; for \<open>0 \<le> v < 10^n\<close> this is the
  decimal numeral of \<open>v\<close> padded with zeros to \<open>n\<close> digits.
\<close>

primrec pad :: "nat \<Rightarrow> int \<Rightarrow> jsstring" where
  "pad 0 v = []"
| "pad (Suc n) v = pad n (v div 10) @ [48 + nat (v mod 10)]"

text \<open>
  \<open>Date.prototype.toISOString\<close>: \<open>RangeError\<close> on an Invalid Date; otherwise the UTC
  fields as \<open>YYYY-MM-DDTHH:mm:ss.sssZ\<close>, the year with a sign and six digits when it is not
  within 0..9999.
\<close>

definition year_string :: "int \<Rightarrow> jsstring" where
  "year_string y =
     (if 0 \<le> y \<and> y \<le> 9999 then pad 4 y
      else (if y < 0 then [45] else [43]) @ pad 6 \<bar>y\<bar>)"

definition toISOString :: "date \<Rightarrow> js_error + jsstring" where
  "toISOString d =
     (case d of
        None \<Rightarrow> Inl RangeError
      | Some t \<Rightarrow> Inr (year_string (YearFromTime t) @ [45] @ pad 2 (MonthFromTime t + 1) @ [45]
                     @ pad 2 (DateFromTime t) @ [84] @ pad 2 (HourFromTime t) @ [58]
                     @ pad 2 (MinFromTime t) @ [58] @ pad 2 (SecFromTime t) @ [46]
                     @ pad 3 (msFromTime t) @ [90]))"

text \<open>
  \<open>Date.prototype.toTimeString\<close>: the local time as \<open>HH:mm:ss\<close>, then \<open> GMT\<close>, the sign
  and the hours and minutes of the offset. The name of the time zone that an
  implementation may append is left out.
\<close>

definition toTimeString :: "int \<Rightarrow> date \<Rightarrow> jsstring" where
  "toTimeString tz d =
     (case d of
        None \<Rightarrow> str ''Invalid Date''
      | Some t \<Rightarrow>
          (let lt = LocalTime tz t in
           pad 2 (HourFromTime lt) @ [58] @ pad 2 (MinFromTime lt) @ [58] @ pad 2 (SecFromTime lt)
           @ str '' GMT'' @ (if 0 \<le> tz then [43] else [45])
           @ pad 2 (HourFromTime \<bar>tz\<bar>) @ pad 2 (MinFromTime \<bar>tz\<bar>)))"

text \<open>\<open>s.slice(0, n)\<close> for \<open>n \<ge> 0\<close>.\<close>

definition slice0 :: "nat \<Rightarrow> jsstring \<Rightarrow> jsstring" where
  "slice0 n s = take n s"

text \<open>
  \<open>Date.parse\<close> on the date-time string format of ECMA-262: a date \<open>YYYY\<close>, \<open>YYYY-MM\<close> or
  \<open>YYYY-MM-DD\<close> (the year four digits, or a sign and six digits, not \<open>-000000\<close>), alone
  (read as UTC) or followed by \<open>T\<close> and \<open>HH:mm\<close>, \<open>HH:mm:ss\<close> or \<open>HH:mm:ss.sss\<close> and then
  nothing (local time), \<open>Z\<close> or an offset \<open>+HH:mm\<close>, \<open>-HH:mm\<close>. Months are 01..12, days
  01..31 (a day beyond the month's length rolls over, as in V8), hours 00..24 (24 only as
  24:00:00.000), minutes and seconds 00..59. What an implementation does with any other
  string is its own choice; the model returns \<open>NaN\<close>.
\<close>

definition is_digit :: "nat \<Rightarrow> bool" where
  "is_digit c = (48 \<le> c \<and> c \<le> 57)"

definition digits_value :: "jsstring \<Rightarrow> int" where
  "digits_value ds = foldl (\<lambda>a c. 10 * a + (int c - 48)) 0 ds"

definition take_digits :: "nat \<Rightarrow> jsstring \<Rightarrow> (int \<times> jsstring) option" where
  "take_digits n s =
     (if n \<le> length s \<and> list_all is_digit (take n s)
      then Some (digits_value (take n s), drop n s) else None)"

definition eat :: "nat \<Rightarrow> jsstring \<Rightarrow> jsstring option" where
  "eat c s = (case s of [] \<Rightarrow> None | x # r \<Rightarrow> if x = c then Some r else None)"

definition parse_iso_year :: "jsstring \<Rightarrow> (int \<times> jsstring) option" where
  "parse_iso_year s =
     (case s of
        [] \<Rightarrow> None
      | c # r \<Rightarrow>
          if c = 43 then take_digits 6 r
          else if c = 45 then
            (case take_digits 6 r of
               None \<Rightarrow> None
             | Some (v, r') \<Rightarrow> if v = 0 then None else Some (- v, r'))
          else take_digits 4 s)"

definition parse_iso_date :: "jsstring \<Rightarrow> (int \<times> int \<times> int \<times> jsstring) option" where
  "parse_iso_date s =
     do {
       (y, r1) \<leftarrow> parse_iso_year s;
       (case eat 45 r1 of
          None \<Rightarrow> Some (y, 1, 1, r1)
        | Some r2 \<Rightarrow>
            do {
              (m, r3) \<leftarrow> take_digits 2 r2;
              (case eat 45 r3 of
                 None \<Rightarrow> Some (y, m, 1, r3)
               | Some r4 \<Rightarrow>
                   do {
                     (d, r5) \<leftarrow> take_digits 2 r4;
                     Some (y, m, d, r5)
                   })
            })
     }"

definition parse_iso_time :: "jsstring \<Rightarrow> (int \<times> int \<times> int \<times> int \<times> jsstring) option" where
  "parse_iso_time s =
     do {
       (h, r1) \<leftarrow> take_digits 2 s;
       r2 \<leftarrow> eat 58 r1;
       (mi, r3) \<leftarrow> take_digits 2 r2;
       (case eat 58 r3 of
          None \<Rightarrow> Some (h, mi, 0, 0, r3)
        | Some r4 \<Rightarrow>
            do {
              (sec, r5) \<leftarrow> take_digits 2 r4;
              (case eat 46 r5 of
                 None \<Rightarrow> Some (h, mi, sec, 0, r5)
               | Some r6 \<Rightarrow>
                   do {
                     (ms, r7) \<leftarrow> take_digits 3 r6;
                     Some (h, mi, sec, ms, r7)
                   })
            })
     }"

text \<open>
  The end of a date-time string: the number of milliseconds the fields are ahead of UTC.
  Nothing stands for local time, \<open>Z\<close> for UTC.
\<close>

definition parse_iso_offset :: "int \<Rightarrow> jsstring \<Rightarrow> int option" where
  "parse_iso_offset tz s =
     (if s = [] then Some tz
      else if s = [90] then Some 0
      else
        (case s of
           [] \<Rightarrow> None
         | c # r \<Rightarrow>
             if c = 43 \<or> c = 45 then
               do {
                 (h, r1) \<leftarrow> take_digits 2 r;
                 r2 \<leftarrow> eat 58 r1;
                 (mi, r3) \<leftarrow> take_digits 2 r2;
                 if r3 = [] \<and> h \<le> 23 \<and> mi \<le> 59
                 then Some ((if c = 45 then - 1 else 1) * (h * 3600000 + mi * 60000))
                 else None
               }
             else None))"

definition Date_parse :: "int \<Rightarrow> jsstring \<Rightarrow> int option" where
  "Date_parse tz s =
     do {
       (y, mo, d, r) \<leftarrow> parse_iso_date s;
       if \<not> (1 \<le> mo \<and> mo \<le> 12 \<and> 1 \<le> d \<and> d \<le> 31) then None
       else if r = [] then Some (MakeDate (MakeDay y (mo - 1) d) 0)
       else
         do {
           r1 \<leftarrow> eat 84 r;
           (h, mi, sec, ms, r2) \<leftarrow> parse_iso_time r1;
           off \<leftarrow> parse_iso_offset tz r2;
           if h \<le> 24 \<and> mi \<le> 59 \<and> sec \<le> 59 \<and> (h = 24 \<longrightarrow> mi = 0 \<and> sec = 0 \<and> ms = 0)
           then Some (MakeDate (MakeDay y (mo - 1) d) (MakeTime h mi sec ms) - off)
           else None
         }
     }"

text \<open>\<open>new Date(string)\<close>: the parsed time value, clipped.\<close>

definition Date_of_string :: "int \<Rightarrow> jsstring \<Rightarrow> date" where
  "Date_of_string tz s = (case Date_parse tz s of None \<Rightarrow> None | Some t \<Rightarrow> TimeClip t)"

lemmas parse_eval = Date_of_string_def Date_parse_def parse_iso_date_def parse_iso_year_def
  parse_iso_time_def parse_iso_offset_def take_digits_def eat_def digits_value_def is_digit_def
  str_def


section \<open>Strings of the form\<close>

text \<open>White space and line terminators, as \<open>String.prototype.trim\<close> and \<open>Number\<close> strip them.\<close>

definition is_ws :: "nat \<Rightarrow> bool" where
  "is_ws c = (c \<in> {9, 10, 11, 12, 13, 32, 160, 5760, 8232, 8233, 8239, 8287, 12288, 65279}
              \<or> (8192 \<le> c \<and> c \<le> 8202))"

definition trim :: "jsstring \<Rightarrow> jsstring" where
  "trim s = rev (dropWhile is_ws (rev (dropWhile is_ws s)))"

text \<open>\<open>s.split(",")\<close> with a one-unit separator: the empty string gives one empty piece.\<close>

fun split :: "nat \<Rightarrow> jsstring \<Rightarrow> jsstring list" where
  "split c [] = [[]]"
| "split c (x # xs) =
     (if x = c then [] # split c xs
      else (case split c xs of [] \<Rightarrow> [[x]] | h # t \<Rightarrow> (x # h) # t))"

text \<open>\<open>xs.join(sep)\<close>.\<close>

fun join :: "jsstring \<Rightarrow> jsstring list \<Rightarrow> jsstring" where
  "join sep [] = []"
| "join sep [x] = x"
| "join sep (x # y # ys) = x @ sep @ join sep (y # ys)"

text \<open>
  \<open>Number(s)\<close> on a string (\<open>StringToNumber\<close>): white space is stripped; the empty string
  is 0; then a decimal literal with an optional sign, fraction and exponent, \<open>Infinity\<close>
  with an optional sign, or an unsigned binary, octal or hexadecimal integer; anything
  else is \<open>NaN\<close>.
\<close>

definition digit_of :: "nat \<Rightarrow> nat option" where
  "digit_of c =
     (if 48 \<le> c \<and> c \<le> 57 then Some (c - 48)
      else if 97 \<le> c \<and> c \<le> 102 then Some (c - 87)
      else if 65 \<le> c \<and> c \<le> 70 then Some (c - 55)
      else None)"

definition radix_value :: "nat \<Rightarrow> jsstring \<Rightarrow> int option" where
  "radix_value b ds =
     (if ds \<noteq> [] \<and> list_all (\<lambda>c. case digit_of c of None \<Rightarrow> False | Some v \<Rightarrow> v < b) ds
      then Some (foldl (\<lambda>a c. int b * a + int (case digit_of c of None \<Rightarrow> 0 | Some v \<Rightarrow> v)) 0 ds)
      else None)"

definition pow10 :: "int \<Rightarrow> rat" where
  "pow10 e = (if 0 \<le> e then 10 ^ nat e else 1 / 10 ^ nat (- e))"

text \<open>An exponent part: empty, or \<open>e\<close> or \<open>E\<close>, an optional sign and digits.\<close>

definition parse_exponent :: "jsstring \<Rightarrow> int option" where
  "parse_exponent s =
     (case s of
        [] \<Rightarrow> Some 0
      | c # r \<Rightarrow>
          if c = 101 \<or> c = 69 then
            (case r of
               [] \<Rightarrow> None
             | g # r' \<Rightarrow>
                 if g = 43 \<or> g = 45 then
                   (if r' \<noteq> [] \<and> list_all is_digit r'
                    then Some ((if g = 45 then - 1 else 1) * digits_value r') else None)
                 else if list_all is_digit r then Some (digits_value r) else None)
          else None)"

definition parse_unsigned_decimal :: "jsstring \<Rightarrow> jsnum" where
  "parse_unsigned_decimal s =
     (if s = str ''Infinity'' then PosInf
      else
        (let ip = takeWhile is_digit s; r1 = dropWhile is_digit s;
             dot = (r1 \<noteq> [] \<and> hd r1 = 46);
             fp = (if dot then takeWhile is_digit (tl r1) else []);
             r2 = (if dot then dropWhile is_digit (tl r1) else r1)
         in if ip = [] \<and> fp = [] then NaN
            else (case parse_exponent r2 of
                    None \<Rightarrow> NaN
                  | Some e \<Rightarrow> Num (of_int (digits_value (ip @ fp)) * pow10 (e - int (length fp))))))"

definition neg_num :: "jsnum \<Rightarrow> jsnum" where
  "neg_num n = (case n of NaN \<Rightarrow> NaN | PosInf \<Rightarrow> NegInf | NegInf \<Rightarrow> PosInf | Num r \<Rightarrow> Num (- r))"

definition StringToNumber :: "jsstring \<Rightarrow> jsnum" where
  "StringToNumber s0 =
     (let s = trim s0 in
      case s of
        [] \<Rightarrow> Num 0
      | c # r \<Rightarrow>
          if c = 48 \<and> r \<noteq> [] \<and> hd r \<in> {120, 88} then
            (case radix_value 16 (tl r) of None \<Rightarrow> NaN | Some v \<Rightarrow> Num (of_int v))
          else if c = 48 \<and> r \<noteq> [] \<and> hd r \<in> {111, 79} then
            (case radix_value 8 (tl r) of None \<Rightarrow> NaN | Some v \<Rightarrow> Num (of_int v))
          else if c = 48 \<and> r \<noteq> [] \<and> hd r \<in> {98, 66} then
            (case radix_value 2 (tl r) of None \<Rightarrow> NaN | Some v \<Rightarrow> Num (of_int v))
          else if c = 43 then parse_unsigned_decimal r
          else if c = 45 then neg_num (parse_unsigned_decimal r)
          else parse_unsigned_decimal s)"

text \<open>
  The duration field of the form holds the number 60 at first, and the text of the
  input element once it has been edited.
\<close>

datatype fieldval = FNum jsnum | FStr jsstring

fun Number :: "fieldval \<Rightarrow> jsnum" where
  "Number (FNum n) = n"
| "Number (FStr s) = StringToNumber s"

section \<open>The form controller\<close>

record form_state =
  form_title :: jsstring
  form_date :: jsstring
  form_time :: jsstring
  form_duration :: fieldval
  form_description :: jsstring
  form_attendees :: jsstring

text \<open>The part of the component's state that the form controller reads and writes.\<close>

record app_state =
  events :: "event list"
  editingEvent :: "event option"
  form :: form_state
  modalOpen :: bool

text \<open>The placeholder title, \<open>(bez nazvu)\<close> with an acute accent on the a, as UTF-16 code units.\<close>

definition placeholder_title :: jsstring where
  "placeholder_title = [40, 98, 101, 122, 32, 110, 225, 122, 118, 117, 41]"

text \<open>
  The object literal of \<open>saveEvent\<close>. \<open>rid\<close> is what \<open>cryptoRandomId()\<close> returns when it is
  called. \<open>start.toISOString()\<close> throws \<open>RangeError\<close> on an Invalid Date, and \<open>saveEvent\<close>
  ends there.
\<close>

definition saveEvent_ev :: "int \<Rightarrow> jsstring \<Rightarrow> app_state \<Rightarrow> js_error + event" where
  "saveEvent_ev tz rid st =
     (let f = form st;
          start_date = Date_of_string tz (form_date f @ str ''T'' @ form_time f)
      in case toISOString start_date of
           Inl err \<Rightarrow> Inl err
         | Inr isoString \<Rightarrow>
             Inr \<lparr>id' = (case editingEvent st of Some e \<Rightarrow> id' e | None \<Rightarrow> rid),
                  title = (if truthy_str (form_title f) then form_title f else placeholder_title),
                  start = isoString,
                  duration = (if truthy_num (Number (form_duration f))
                              then Number (form_duration f) else Num 60),
                  description = form_description f,
                  attendees = filter truthy_str (map trim (split 44 (form_attendees f)))\<rparr>)"

text \<open>
  \<open>saveEvent\<close>: the event is built, then \<open>setEvents\<close> replaces by id when an event is being
  edited and appends otherwise, and the modal is closed. An exception leaves the state as
  it was.
\<close>

definition saveEvent :: "int \<Rightarrow> jsstring \<Rightarrow> app_state \<Rightarrow> js_error + app_state" where
  "saveEvent tz rid st =
     (case saveEvent_ev tz rid st of
        Inl err \<Rightarrow> Inl err
      | Inr ev \<Rightarrow>
          Inr (st\<lparr>events :=
                     (case editingEvent st of
                        Some e \<Rightarrow> map (\<lambda>p. if id' p = id' ev then ev else p) (events st)
                      | None \<Rightarrow> events st @ [ev]),
                   modalOpen := False\<rparr>))"

text \<open>
  \<open>openEditModal(ev)\<close>: the form's date is the first ten units of \<open>toISOString()\<close> (the UTC
  date), its time the first five units of \<open>toTimeString()\<close> (the local time).
\<close>

definition openEditModal :: "int \<Rightarrow> event \<Rightarrow> app_state \<Rightarrow> js_error + app_state" where
  "openEditModal tz ev st =
     (let d = Date_of_string tz (start ev) in
      case toISOString d of
        Inl err \<Rightarrow> Inl err
      | Inr isoString \<Rightarrow>
          (let isoDate = slice0 10 isoString;
               hhmm = slice0 5 (toTimeString tz d)
           in Inr (st\<lparr>editingEvent := Some ev,
                       form := \<lparr>form_title = title ev, form_date = isoDate, form_time = hhmm,
                                 form_duration = FNum (if truthy_num (duration ev)
                                                       then duration ev else Num 60),
                                 form_description = description ev,
                                 form_attendees = join (str '', '') (attendees ev)\<rparr>,
                       modalOpen := True\<rparr>)))"

section \<open>Events of a day\<close>







section \<open>Reading back what toISOString writes\<close>


lemma length_pad [simp]: "length (pad n v) = n"
  by (induction n arbitrary: v) simp_all

lemma digits_pad: "list_all is_digit (pad n v)"
proof (induction n arbitrary: v)
  case 0
  show ?case by simp
next
  case (Suc n)
  have "0 \<le> v mod 10" "v mod 10 < 10" by simp_all
  then have "is_digit (48 + nat (v mod 10))" by (simp add: is_digit_def)
  with Suc show ?case by simp
qed

lemma digits_value_snoc: "digits_value (xs @ [c]) = 10 * digits_value xs + (int c - 48)"
  by (simp add: digits_value_def)

lemma digits_value_pad: "0 \<le> v \<Longrightarrow> v < 10 ^ n \<Longrightarrow> digits_value (pad n v) = v"
proof (induction n arbitrary: v)
  case 0
  then show ?case by (simp add: digits_value_def)
next
  case (Suc n)
  have "0 \<le> v div 10" using Suc.prems by simp
  moreover have "v div 10 < 10 ^ n" using Suc.prems by simp
  ultimately have "digits_value (pad n (v div 10)) = v div 10" by (rule Suc.IH)
  moreover have "0 \<le> v mod 10" by simp
  ultimately show ?case by (simp add: digits_value_snoc)
qed

lemma take_digits_pad:
  "0 \<le> v \<Longrightarrow> v < 10 ^ n \<Longrightarrow> take_digits n (pad n v @ r) = Some (v, r)"
  by (simp add: take_digits_def digits_pad digits_value_pad)

lemma pad_Cons: "0 < n \<Longrightarrow> \<exists>c cs. pad n v = c # cs \<and> is_digit c"
proof -
  assume "0 < n"
  then have "pad n v \<noteq> []" using length_pad [of n v] by (metis length_0_conv less_numeral_extra(3))
  then obtain c cs where e: "pad n v = c # cs" by (cases "pad n v") auto
  moreover have "is_digit c" using digits_pad [of n v] e by simp
  ultimately show ?thesis by blast
qed

lemma parse_iso_year_string:
  assumes "- 999999 \<le> y" "y \<le> 999999"
  shows "parse_iso_year (year_string y @ r) = Some (y, r)"
proof (cases "0 \<le> y \<and> y \<le> 9999")
  case True
  obtain c cs where e: "pad 4 y = c # cs" "is_digit c" using pad_Cons [of 4 y] by auto
  then have c: "c \<noteq> 43" "c \<noteq> 45" by (auto simp: is_digit_def)
  have "take_digits 4 (pad 4 y @ r) = Some (y, r)"
    using True by (intro take_digits_pad) simp_all
  then show ?thesis
    using True e c by (simp add: parse_iso_year_def year_string_def)
next
  case False
  have t: "take_digits 6 (pad 6 \<bar>y\<bar> @ r) = Some (\<bar>y\<bar>, r)"
    using assms by (intro take_digits_pad) simp_all
  show ?thesis
  proof (cases "y < 0")
    case True
    then show ?thesis using False t by (simp add: parse_iso_year_def year_string_def)
  next
    case False
    then show ?thesis using \<open>\<not> (0 \<le> y \<and> y \<le> 9999)\<close> t
      by (simp add: parse_iso_year_def year_string_def)
  qed
qed

lemma time_fields_sum:
  "MakeTime (HourFromTime t) (MinFromTime t) (SecFromTime t) (msFromTime t) = TimeWithinDay t"
proof -
  define H M S R1 R2 R3 W where "H = t div 3600000 mod 24" and "M = t div 60000 mod 60"
    and "S = t div 1000 mod 60" and "R1 = t mod 3600000" and "R2 = t mod 60000"
    and "R3 = t mod 1000" and "W = t mod 86400000"
  have a: "W = 3600000 * H + R1"
    unfolding W_def H_def R1_def using zmod_zmult2_eq [of 24 t 3600000] by simp
  have b: "R1 = 60000 * M + R2"
    unfolding M_def R1_def R2_def using zmod_zmult2_eq [of 60 t 60000] by simp
  have c: "R2 = 1000 * S + R3"
    unfolding S_def R3_def R2_def using zmod_zmult2_eq [of 60 t 1000] by simp
  have "H * 3600000 + M * 60000 + S * 1000 + R3 = W"
    using a b c by simp
  then show ?thesis
    unfolding MakeTime_def HourFromTime_def MinFromTime_def SecFromTime_def msFromTime_def
      TimeWithinDay_def msPerDay_def H_def M_def S_def R3_def W_def .
qed

lemma MakeDate_fields:
  "MakeDate (MakeDay (YearFromTime t) (MonthFromTime t) (DateFromTime t))
            (MakeTime (HourFromTime t) (MinFromTime t) (SecFromTime t) (msFromTime t)) = t"
  by (simp add: MakeDay_fields time_fields_sum MakeDate_def Day_def TimeWithinDay_def)


lemma eat_Cons [simp]: "eat c (c # r) = Some r"
  by (simp add: eat_def)

lemma time_field_ranges:
  "0 \<le> HourFromTime t \<and> HourFromTime t \<le> 23 \<and> 0 \<le> MinFromTime t \<and> MinFromTime t \<le> 59
   \<and> 0 \<le> SecFromTime t \<and> SecFromTime t \<le> 59 \<and> 0 \<le> msFromTime t \<and> msFromTime t \<le> 999"
proof -
  have "x mod 24 < 24" "x mod 60 < 60" "x mod 1000 < 1000" for x :: int by simp_all
  then have "x mod 24 \<le> 23" "x mod 60 \<le> 59" "x mod 1000 \<le> 999" for x :: int
    by (simp_all add: zle_diff1_eq [symmetric] del: zle_diff1_eq)
  then show ?thesis
    by (simp add: HourFromTime_def MinFromTime_def SecFromTime_def msFromTime_def)
qed

lemma DateFromTime_range: "1 \<le> DateFromTime t \<and> DateFromTime t \<le> 31"
proof -
  have d: "0 \<le> DayWithinYear t" "DayWithinYear t < 365 + InLeapYear t"
    using DayWithinYear_range [of t] DaysInYear_bounds [of "YearFromTime t"]
    by (simp_all add: InLeapYear_def)
  have lo: "month_start (InLeapYear t) (MonthFromTime t) \<le> DayWithinYear t"
    using d(1) by (simp add: month_start_def MonthFromTime_def Let_def)
  have hi: "DayWithinYear t < month_start (InLeapYear t) (MonthFromTime t) + 31"
    using d(2) InLeapYear_01 [of t] by (auto simp: month_start_def MonthFromTime_def Let_def)
  show ?thesis using lo hi by (simp add: DateFromTime_month_start)
qed

lemma Day_in_range:
  assumes "in_range t"
  shows "- 100000000 \<le> Day t \<and> Day t \<le> 100000000"
proof -
  have t: "- 8640000000000000 \<le> t" "t \<le> 8640000000000000"
    using assms by (simp_all add: in_range_def)
  have "(- 8640000000000000) div 86400000 \<le> t div (86400000 :: int)"
    using t(1) by (intro zdiv_mono1) simp_all
  moreover have "t div (86400000 :: int) \<le> 8640000000000000 div 86400000"
    using t(2) by (intro zdiv_mono1) simp_all
  ultimately show ?thesis by (simp add: Day_def msPerDay_def)
qed

lemma YearFromTime_in_range:
  assumes "in_range t"
  shows "- 999999 \<le> YearFromTime t \<and> YearFromTime t \<le> 999999"
proof -
  let ?y = "YearFromTime t"
  note d = Day_in_range [OF assms]
  have s: "DayFromYear ?y \<le> Day t" "Day t < DayFromYear (?y + 1)"
    using YearFromDay_spec [of "Day t"] by (simp_all add: YearFromTime_def)
  have e1: "DayFromYear 1000000 = 364522972" by (simp add: DayFromYear_def)
  have e2: "DayFromYear (- 999999) = - 365961662" by (simp add: DayFromYear_def)
  have "?y \<le> 999999"
  proof (rule ccontr)
    assume "\<not> ?y \<le> 999999"
    then have "DayFromYear 1000000 \<le> DayFromYear ?y" by (intro DayFromYear_mono) simp
    then show False using s(1) d e1 by linarith
  qed
  moreover have "- 999999 \<le> ?y"
  proof (rule ccontr)
    assume "\<not> - 999999 \<le> ?y"
    then have "DayFromYear (?y + 1) \<le> DayFromYear (- 999999)" by (intro DayFromYear_mono) simp
    then show False using s(2) d e2 by linarith
  qed
  ultimately show ?thesis by simp
qed

lemma parse_iso_time_fields:
  assumes "0 \<le> h" "h < 100" "0 \<le> mi" "mi < 100" "0 \<le> sec" "sec < 100" "0 \<le> ms" "ms < 1000"
  shows "parse_iso_time (pad 2 h @ 58 # pad 2 mi @ 58 # pad 2 sec @ 46 # pad 3 ms @ r)
         = Some (h, mi, sec, ms, r)"
  using assms by (simp add: parse_iso_time_def take_digits_pad del: pad.simps)

lemma parse_iso_date_fields:
  assumes "- 999999 \<le> y" "y \<le> 999999" "0 \<le> m" "m < 100" "0 \<le> d" "d < 100" "c \<noteq> 45"
  shows "parse_iso_date (year_string y @ 45 # pad 2 m @ 45 # pad 2 d @ c # r)
         = Some (y, m, d, c # r)"
  using assms
  by (simp add: parse_iso_date_def parse_iso_year_string take_digits_pad eat_def del: pad.simps)

lemma Date_of_toISOString:
  assumes "in_range t"
  shows "\<exists>s. toISOString (Some t) = Inr s \<and> Date_of_string tz s = Some t"
proof -
  let ?s = "year_string (YearFromTime t) @ 45 # pad 2 (MonthFromTime t + 1) @ 45
            # pad 2 (DateFromTime t) @ 84 # pad 2 (HourFromTime t) @ 58
            # pad 2 (MinFromTime t) @ 58 # pad 2 (SecFromTime t) @ 46
            # pad 3 (msFromTime t) @ [90]"
  have iso: "toISOString (Some t) = Inr ?s" by (simp add: toISOString_def del: pad.simps)
  note y = YearFromTime_in_range [OF assms]
  note m = MonthFromTime_range [of t]
  note d = DateFromTime_range [of t]
  note tf = time_field_ranges [of t]
  have pd: "parse_iso_date ?s = Some (YearFromTime t, MonthFromTime t + 1, DateFromTime t,
              84 # pad 2 (HourFromTime t) @ 58 # pad 2 (MinFromTime t) @ 58
              # pad 2 (SecFromTime t) @ 46 # pad 3 (msFromTime t) @ [90])"
    using y m d by (intro parse_iso_date_fields) simp_all
  have pt: "parse_iso_time (pad 2 (HourFromTime t) @ 58 # pad 2 (MinFromTime t) @ 58
              # pad 2 (SecFromTime t) @ 46 # pad 3 (msFromTime t) @ [90])
            = Some (HourFromTime t, MinFromTime t, SecFromTime t, msFromTime t, [90])"
    using tf by (intro parse_iso_time_fields) simp_all
  have po: "parse_iso_offset tz [90] = Some 0" by (simp add: parse_iso_offset_def)
  have "Date_parse tz ?s = Some t"
    unfolding Date_parse_def pd
    using m d tf by (simp add: pt po MakeDate_fields del: pad.simps)
  then have "Date_of_string tz ?s = Some t"
    using assms by (simp add: Date_of_string_def TimeClip_in_range)
  with iso show ?thesis by blast
qed



section \<open>Month navigation (C8)\<close>













section \<open>Events of a day (C4)\<close>























end
